theory Spec2Isabelle
  imports Main
begin

section \<open>Errors\<close>

text \<open>
  Every \<^verbatim>\<open>fmt.Errorf\<close> site of \<^verbatim>\<open>random_int.go\<close> is one constructor; a wrapped
  error (\<^verbatim>\<open>%w\<close>) is the constructor's last argument. \<open>ToolkitError\<close> stands for the
  errors of the \<^verbatim>\<open>toolkit\<close> package, which carry their own message.
\<close>

datatype error =
    ToolkitError string
  | UnableToScanParam string error
  | ColumnIsNotFound string
  | MaxMustBeGreater int int
  | UnableToScanValue error
  | UnableToSetNewValue error

text \<open>Decimal rendering of an integer, as \<^verbatim>\<open>%d\<close> prints it.\<close>

fun digits :: "nat \<Rightarrow> string" where
  "digits n =
     (if n < 10 then [''0123456789'' ! n]
      else digits (n div 10) @ [''0123456789'' ! (n mod 10)])"

declare digits.simps [simp del]

definition itoa :: "int \<Rightarrow> string" where
  "itoa i = (if i < 0 then CHR ''-'' # digits (nat (- i)) else digits (nat i))"

text \<open>The message of an error value (Go's \<^verbatim>\<open>err.Error()\<close>).\<close>

fun Error :: "error \<Rightarrow> string" where
  "Error (ToolkitError m) = m"
| "Error (UnableToScanParam p e) =
     ''unable to scan '' @ [CHR 0x22] @ p @ [CHR 0x22] @ '' param: '' @ Error e"
| "Error (ColumnIsNotFound columnName) =
     ''column with name '' @ columnName @ '' is not found''"
| "Error (MaxMustBeGreater minVal maxVal) =
     ''max value must be greater than min: got min = '' @ itoa minVal @ '' max = '' @ itoa maxVal"
| "Error (UnableToScanValue e) = ''unable to scan value: '' @ Error e"
| "Error (UnableToSetNewValue e) = ''unable to set new value: '' @ Error e"

section \<open>The toolkit package: records, driver, parameters\<close>

text \<open>
  \<^verbatim>\<open>random_int.go\<close> imports \<^verbatim>\<open>pkg/toolkit\<close>, whose source is not part of the
  slice. Its types and functions used by the transformer are modelled here from the
  specification; each such definition says so.
\<close>

subsection \<open>Records\<close>

text \<open>
  Modelled from the spec: \<^verbatim>\<open>toolkit.RawValue\<close> and \<^verbatim>\<open>toolkit.Record\<close> are missing.
  A record is one decoded row: ordered column slots, each holding a raw value plus a null
  flag, addressable by column index.
\<close>

record RawValue =
  Data :: string
  IsNull :: bool

record Record =
  columns :: "RawValue list"

text \<open>
  Modelled from the spec: \<^verbatim>\<open>Record.GetRawColumnValueByIdx\<close> is missing. It reads the
  slot at an index and fails when the record has no such slot.
\<close>

definition GetRawColumnValueByIdx :: "Record \<Rightarrow> nat \<Rightarrow> error + RawValue" where
  "GetRawColumnValueByIdx r idx =
     (if idx < length (columns r) then Inr (columns r ! idx)
      else Inl (ToolkitError ''column index is out of range''))"

text \<open>
  Modelled from the spec: \<^verbatim>\<open>Record.SetColumnValueByIdx\<close> is missing. It overwrites
  the raw value of the slot at an index with the encoding of an integer, which is then not
  null, and fails (leaving the record as it was) when the record has no such slot.
\<close>

definition SetColumnValueByIdx :: "Record \<Rightarrow> nat \<Rightarrow> int \<Rightarrow> error + Record" where
  "SetColumnValueByIdx r idx v =
     (if idx < length (columns r)
      then Inr (r\<lparr>columns := (columns r)[idx := \<lparr>Data = itoa v, IsNull = False\<rparr>]\<rparr>)
      else Inl (ToolkitError ''column index is out of range''))"

subsection \<open>Driver\<close>

text \<open>
  Modelled from the spec: \<^verbatim>\<open>toolkit.Driver\<close> is missing. The schema handle knows the
  columns of the target relation; \<^verbatim>\<open>GetColumnByName(name)\<close> gives the index and the
  descriptor of the first column of that name, or reports that there is none.
\<close>

record Column =
  cName :: string
  cTypeName :: string

record Driver =
  Columns :: "Column list"

fun find_column :: "Column list \<Rightarrow> string \<Rightarrow> nat \<Rightarrow> (nat \<times> Column) option" where
  "find_column [] name i = None"
| "find_column (c # cs) name i =
     (if cName c = name then Some (i, c) else find_column cs name (Suc i))"

definition GetColumnByName :: "Driver \<Rightarrow> string \<Rightarrow> (nat \<times> Column) option" where
  "GetColumnByName driver name = find_column (Columns driver) name 0"

subsection \<open>Parameter definitions\<close>

text \<open>
  Modelled from the spec: \<^verbatim>\<open>toolkit.ParameterDefinition\<close> and its setters are missing.
  A definition has a name, a description, a required flag, a default value, whether it
  denotes a column (with the allowed column types and whether the column is affected),
  the sibling parameter it is linked to, and whether it supports dynamic mode.
\<close>

record ColumnProperties =
  Affected :: bool
  AllowedColumnTypes :: "string list"

record ParameterDefinition =
  Name :: string
  Description :: string
  Required :: bool
  DefaultValue :: "string option"
  IsColumn :: bool
  ColumnProps :: "ColumnProperties option"
  LinkParameter :: "string option"
  DynamicModeSupport :: bool

definition MustNewParameterDefinition :: "string \<Rightarrow> string \<Rightarrow> ParameterDefinition" where
  "MustNewParameterDefinition name description =
     \<lparr>Name = name, Description = description, Required = False, DefaultValue = None,
      IsColumn = False, ColumnProps = None, LinkParameter = None,
      DynamicModeSupport = False\<rparr>"

definition NewColumnProperties :: ColumnProperties where
  "NewColumnProperties = \<lparr>Affected = False, AllowedColumnTypes = []\<rparr>"

definition SetIsColumn :: "ColumnProperties \<Rightarrow> ParameterDefinition \<Rightarrow> ParameterDefinition" where
  "SetIsColumn props d = d\<lparr>IsColumn := True, ColumnProps := Some props\<rparr>"

definition SetAffected :: "bool \<Rightarrow> ColumnProperties \<Rightarrow> ColumnProperties" where
  "SetAffected v props = props\<lparr>Affected := v\<rparr>"

definition SetAllowedColumnTypes :: "string list \<Rightarrow> ColumnProperties \<Rightarrow> ColumnProperties" where
  "SetAllowedColumnTypes ts props = props\<lparr>AllowedColumnTypes := ts\<rparr>"

definition SetRequired :: "bool \<Rightarrow> ParameterDefinition \<Rightarrow> ParameterDefinition" where
  "SetRequired v d = d\<lparr>Required := v\<rparr>"

definition SetLinkParameter :: "string \<Rightarrow> ParameterDefinition \<Rightarrow> ParameterDefinition" where
  "SetLinkParameter name d = d\<lparr>LinkParameter := Some name\<rparr>"

definition SetDynamicModeSupport :: "bool \<Rightarrow> ParameterDefinition \<Rightarrow> ParameterDefinition" where
  "SetDynamicModeSupport v d = d\<lparr>DynamicModeSupport := v\<rparr>"

definition SetDefaultValue :: "string \<Rightarrow> ParameterDefinition \<Rightarrow> ParameterDefinition" where
  "SetDefaultValue v d = d\<lparr>DefaultValue := Some v\<rparr>"

subsection \<open>Parameter handles and scanning\<close>

text \<open>
  Modelled from the spec: \<^verbatim>\<open>toolkit.Parameterizer\<close> and its implementations are
  missing. A handle is static (the value supplied in the configuration, if any; the
  definition's default otherwise) or dynamic (the value is read from a column of the row
  being transformed, so it may differ from row to row). Scanning parses the raw value
  into the type of the destination and fails on a missing value or a type mismatch.
\<close>

datatype Parameterizer =
    StaticParameter ParameterDefinition "string option"
  | DynamicParameter ParameterDefinition nat

fun GetDefinition :: "Parameterizer \<Rightarrow> ParameterDefinition" where
  "GetDefinition (StaticParameter d v) = d"
| "GetDefinition (DynamicParameter d i) = d"

fun IsDynamic :: "Parameterizer \<Rightarrow> bool" where
  "IsDynamic (StaticParameter d v) = False"
| "IsDynamic (DynamicParameter d i) = True"

fun raw_value :: "Parameterizer \<Rightarrow> Record option \<Rightarrow> error + string" where
  "raw_value (StaticParameter d v) cur =
     (case v of
        Some raw \<Rightarrow> Inr raw
      | None \<Rightarrow>
          (case DefaultValue d of
             Some raw \<Rightarrow> Inr raw
           | None \<Rightarrow> Inl (ToolkitError ''parameter value is not set'')))"
| "raw_value (DynamicParameter d i) None = Inl (ToolkitError ''record is not set'')"
| "raw_value (DynamicParameter d i) (Some r) =
     (case GetRawColumnValueByIdx r i of
        Inl e \<Rightarrow> Inl e
      | Inr val \<Rightarrow>
          if IsNull val then Inl (ToolkitError ''dynamic value is null'')
          else Inr (Data val))"

definition parse_string :: "string \<Rightarrow> string option" where
  "parse_string raw = Some raw"

definition parse_bool :: "string \<Rightarrow> bool option" where
  "parse_bool raw =
     (if raw \<in> set [''1'', ''t'', ''T'', ''TRUE'', ''true'', ''True''] then Some True
      else if raw \<in> set [''0'', ''f'', ''F'', ''FALSE'', ''false'', ''False''] then Some False
      else None)"

definition digit_val :: "char \<Rightarrow> nat option" where
  "digit_val = map_of
     [(CHR ''0'', 0), (CHR ''1'', 1), (CHR ''2'', 2), (CHR ''3'', 3), (CHR ''4'', 4),
      (CHR ''5'', 5), (CHR ''6'', 6), (CHR ''7'', 7), (CHR ''8'', 8), (CHR ''9'', 9)]"

fun parse_digits :: "string \<Rightarrow> nat \<Rightarrow> nat option" where
  "parse_digits [] acc = Some acc"
| "parse_digits (c # cs) acc =
     (case digit_val c of None \<Rightarrow> None | Some d \<Rightarrow> parse_digits cs (10 * acc + d))"

text \<open>A signed decimal numeral that fits 64 bits.\<close>

definition parse_int64 :: "string \<Rightarrow> int option" where
  "parse_int64 raw =
     (let (neg, ds) =
        (case raw of
           [] \<Rightarrow> (False, [])
         | c # cs \<Rightarrow>
             if c = CHR ''-'' then (True, cs)
             else if c = CHR ''+'' then (False, cs) else (False, raw))
      in if ds = [] then None
         else (case parse_digits ds 0 of
                 None \<Rightarrow> None
               | Some n \<Rightarrow>
                   (let v = (if neg then - int n else int n)
                    in if - (2 ^ 63) \<le> v \<and> v < 2 ^ 63 then Some v else None)))"

definition scan_value ::
  "(string \<Rightarrow> 'a option) \<Rightarrow> Parameterizer \<Rightarrow> Record option \<Rightarrow> error + 'a" where
  "scan_value parse p cur =
     (case raw_value p cur of
        Inl e \<Rightarrow> Inl e
      | Inr raw \<Rightarrow>
          (case parse raw of
             None \<Rightarrow> Inl (ToolkitError (''cannot scan value '' @ raw))
           | Some v \<Rightarrow> Inr v))"

subsection \<open>The world the transformer runs in\<close>

text \<open>
  Go passes records by pointer and shares the parameter handles between the framework
  and the transformer. The store maps each record address to the record there; the log
  lists, in order, the name of every parameter on which \<^verbatim>\<open>Scan\<close> has been called.
\<close>

type_synonym addr = nat

record world =
  records :: "addr \<Rightarrow> Record"
  scans :: "string list"

definition Scan ::
  "(string \<Rightarrow> 'a option) \<Rightarrow> Parameterizer \<Rightarrow> Record option \<Rightarrow> world
     \<Rightarrow> (error + 'a) \<times> world" where
  "Scan parse p cur w =
     (scan_value parse p cur, w\<lparr>scans := scans w @ [Name (GetDefinition p)]\<rparr>)"

subsection \<open>Random numbers\<close>

text \<open>
  \<^verbatim>\<open>math/rand\<close> belongs to Go's library. A generator is the sequence of its future
  draws and a position in it, so that every statement below holds for whatever the
  generator produces. \<^verbatim>\<open>Int63\<close> returns a non-negative 63-bit integer.
\<close>

record Rand =
  draws :: "nat \<Rightarrow> nat"
  pos :: nat

definition rand_New :: "(nat \<Rightarrow> nat) \<Rightarrow> Rand" where
  "rand_New source = \<lparr>draws = source, pos = 0\<rparr>"

definition Int63 :: "Rand \<Rightarrow> nat \<times> Rand" where
  "Int63 g = (draws g (pos g) mod 2 ^ 63, g\<lparr>pos := Suc (pos g)\<rparr>)"

text \<open>
  Modelled from the spec: \<^verbatim>\<open>toolkit.RandomInt\<close> is missing. It draws a value from the
  closed range \<open>[min, max]\<close>.
\<close>

definition RandomInt :: "Rand \<Rightarrow> int \<Rightarrow> int \<Rightarrow> int \<times> Rand" where
  "RandomInt g minVal maxVal =
     (let (d, g') = Int63 g in (minVal + int d mod (maxVal - minVal + 1), g'))"

section \<open>The RandomInt transformer (\<^verbatim>\<open>random_int.go\<close>)\<close>

definition RandomIntTransformerDefinition_parameters :: "ParameterDefinition list" where
  "RandomIntTransformerDefinition_parameters =
     [ SetRequired True
         (SetIsColumn
            (SetAllowedColumnTypes [''int2'', ''int4'', ''int8'', ''numeric'']
               (SetAffected True NewColumnProperties))
            (MustNewParameterDefinition ''column'' ''column name'')),
       SetDynamicModeSupport True
         (SetLinkParameter ''column''
            (SetRequired True
               (MustNewParameterDefinition ''min'' ''min int value threshold''))),
       SetDynamicModeSupport True
         (SetLinkParameter ''column''
            (SetRequired True
               (MustNewParameterDefinition ''max'' ''max int value threshold''))),
       SetDefaultValue ''true''
         (MustNewParameterDefinition ''keep_null''
            ''indicates that NULL values must not be replaced with transformed values'') ]"

text \<open>
  Modelled from the spec: the framework's initialisation of the parameters is missing.
  For a static configuration it gives one static handle for each declared parameter,
  holding the value the configuration supplies for it, if any. A name that is not
  declared gets a handle with no value and no default, whose scan fails.
\<close>

definition InitParameters ::
  "ParameterDefinition list \<Rightarrow> (string \<rightharpoonup> string) \<Rightarrow> string \<Rightarrow> Parameterizer" where
  "InitParameters defs config name =
     (case find (\<lambda>d. Name d = name) defs of
        Some d \<Rightarrow> StaticParameter d (config name)
      | None \<Rightarrow> StaticParameter (MustNewParameterDefinition name []) None)"

record RandomIntTransformer =
  columnName :: string
  keepNull :: bool
  rand :: Rand
  affectedColumns :: "nat \<rightharpoonup> string"
  columnIdx :: nat
  columnParam :: Parameterizer
  maxParam :: Parameterizer
  minParam :: Parameterizer
  keepNullParam :: Parameterizer

type_synonym ValidationWarnings = "string list"

text \<open>
  The constructor. The framework gives one handle for each declared parameter, so
  \<open>parameters\<close> is a total function of the name. \<open>NewSource\<close> is the library's
  \<^verbatim>\<open>rand.NewSource\<close> and \<open>now\<close> the reading of the clock
  (\<^verbatim>\<open>time.Now().UnixMicro()\<close>). A local variable that shares its name with a field of
  the instance is primed. No row is being transformed at construction time, so
  the handles are scanned with no current record. The three results are the instance
  (\<open>None\<close> is \<^verbatim>\<open>nil\<close>), the warnings and the error (\<open>None\<close> is \<^verbatim>\<open>nil\<close>).
\<close>

definition NewRandomIntTransformer ::
  "(int \<Rightarrow> nat \<Rightarrow> nat) \<Rightarrow> int \<Rightarrow> Driver \<Rightarrow> (string \<Rightarrow> Parameterizer) \<Rightarrow> world
     \<Rightarrow> (RandomIntTransformer option \<times> ValidationWarnings \<times> error option) \<times> world" where
  "NewRandomIntTransformer NewSource now driver parameters w0 =
     (let columnParam' = parameters ''column'';
          minParam' = parameters ''min'';
          maxParam' = parameters ''max'';
          keepNullParam' = parameters ''keep_null'';
          (res1, w1) = Scan parse_string columnParam' None w0
      in case res1 of
           Inl err \<Rightarrow> ((None, [], Some (UnableToScanParam ''column'' err)), w1)
         | Inr columnName' \<Rightarrow>
             (case GetColumnByName driver columnName' of
                None \<Rightarrow> ((None, [], Some (ColumnIsNotFound columnName')), w1)
              | Some (idx, c) \<Rightarrow>
                  (let affectedColumns' = Map.empty(idx \<mapsto> columnName');
                       (res2, w2) = Scan parse_bool keepNullParam' None w1
                   in case res2 of
                        Inl err \<Rightarrow> ((None, [], Some (UnableToScanParam ''keep_null'' err)), w2)
                      | Inr keepNull' \<Rightarrow>
                          ((Some \<lparr>columnName = columnName',
                                  keepNull = keepNull',
                                  rand = rand_New (NewSource now),
                                  affectedColumns = affectedColumns',
                                  columnIdx = idx,
                                  columnParam = columnParam',
                                  maxParam = maxParam',
                                  minParam = minParam',
                                  keepNullParam = keepNullParam'\<rparr>, [], None), w2))))"

definition GetAffectedColumns :: "RandomIntTransformer \<Rightarrow> (nat \<rightharpoonup> string)" where
  "GetAffectedColumns rit = affectedColumns rit"

text \<open>
  The methods have a pointer receiver: each returns the instance as it leaves it, next
  to its results.
\<close>

definition Init :: "RandomIntTransformer \<Rightarrow> world \<Rightarrow> error option \<times> RandomIntTransformer \<times> world" where
  "Init rit w = (None, rit, w)"

definition Done :: "RandomIntTransformer \<Rightarrow> world \<Rightarrow> error option \<times> RandomIntTransformer \<times> world" where
  "Done rit w = (None, rit, w)"

text \<open>
  \<open>Transform\<close> takes the address of the record. Its two results are the returned
  record pointer (\<open>None\<close> is \<^verbatim>\<open>nil\<close>) and the error (\<open>None\<close> is \<^verbatim>\<open>nil\<close>). The
  row being transformed is the current record of the dynamic handles. The bounds are
  \<^verbatim>\<open>int64\<close> values: a successful scan gives an integer of that range, and
  \<open>Transform\<close> only compares the two, so no arithmetic of its own can wrap around.
\<close>

definition Transform ::
  "RandomIntTransformer \<Rightarrow> addr \<Rightarrow> world
     \<Rightarrow> (addr option \<times> error option) \<times> RandomIntTransformer \<times> world" where
  "Transform rit r w0 =
     (let (res1, w1) = Scan parse_int64 (minParam rit) (Some (records w0 r)) w0
      in case res1 of
           Inl err \<Rightarrow> ((None, Some (UnableToScanParam ''min'' err)), rit, w1)
         | Inr minVal \<Rightarrow>
             (let (res2, w2) = Scan parse_int64 (maxParam rit) (Some (records w1 r)) w1
              in case res2 of
                   Inl err \<Rightarrow> ((None, Some (UnableToScanParam ''max'' err)), rit, w2)
                 | Inr maxVal \<Rightarrow>
                     if minVal \<ge> maxVal
                     then ((None, Some (MaxMustBeGreater minVal maxVal)), rit, w2)
                     else
                       (case GetRawColumnValueByIdx (records w2 r) (columnIdx rit) of
                          Inl err \<Rightarrow> ((None, Some (UnableToScanValue err)), rit, w2)
                        | Inr val \<Rightarrow>
                            if IsNull val \<and> keepNull rit then ((Some r, None), rit, w2)
                            else
                              (let (v, g) = RandomInt (rand rit) minVal maxVal;
                                   rit' = rit\<lparr>rand := g\<rparr>
                               in case SetColumnValueByIdx (records w2 r) (columnIdx rit) v of
                                    Inl err \<Rightarrow>
                                      ((None, Some (UnableToSetNewValue err)), rit', w2)
                                  | Inr r' \<Rightarrow>
                                      ((Some r, None), rit',
                                       w2\<lparr>records := (records w2)(r := r')\<rparr>)))))"

text \<open>A run of an instance: any sequence of its operations, on any records.\<close>

datatype operation = OpInit | OpTransform addr | OpDone

fun apply_operation :: "operation \<Rightarrow> RandomIntTransformer \<times> world \<Rightarrow> RandomIntTransformer \<times> world" where
  "apply_operation OpInit (rit, w) = snd (Init rit w)"
| "apply_operation (OpTransform r) (rit, w) = snd (Transform rit r w)"
| "apply_operation OpDone (rit, w) = snd (Done rit w)"

fun apply_operations ::
  "operation list \<Rightarrow> RandomIntTransformer \<times> world \<Rightarrow> RandomIntTransformer \<times> world" where
  "apply_operations [] s = s"
| "apply_operations (x # xs) s = apply_operations xs (apply_operation x s)"

subsection \<open>A concrete table and configuration\<close>

text \<open>
  The table \<^verbatim>\<open>orders\<close> of the tests' migration, two of its rows (the second with a
  null \<^verbatim>\<open>user_id\<close>), and the static configurations of the transformer: a column
  name, the two bounds and, if supplied, \<^verbatim>\<open>keep_null\<close>.
\<close>

definition orders_driver :: Driver where
  "orders_driver =
     \<lparr>Columns =
        [\<lparr>cName = ''id'', cTypeName = ''int4''\<rparr>,
         \<lparr>cName = ''user_id'', cTypeName = ''int4''\<rparr>,
         \<lparr>cName = ''order_amount'', cTypeName = ''numeric''\<rparr>]\<rparr>"

definition orders_row :: Record where
  "orders_row =
     \<lparr>columns =
        [\<lparr>Data = ''1'', IsNull = False\<rparr>,
         \<lparr>Data = ''2'', IsNull = False\<rparr>,
         \<lparr>Data = ''100.50'', IsNull = False\<rparr>]\<rparr>"

definition orders_row_null :: Record where
  "orders_row_null =
     \<lparr>columns =
        [\<lparr>Data = ''2'', IsNull = False\<rparr>,
         \<lparr>Data = [], IsNull = True\<rparr>,
         \<lparr>Data = ''200.75'', IsNull = False\<rparr>]\<rparr>"

definition orders_world :: world where
  "orders_world =
     \<lparr>records = (\<lambda>a. if a = 1 then orders_row_null else orders_row), scans = []\<rparr>"

definition static_config ::
  "string \<Rightarrow> string \<Rightarrow> string \<Rightarrow> string option \<Rightarrow> string \<Rightarrow> Parameterizer" where
  "static_config col lo hi kn =
     InitParameters RandomIntTransformerDefinition_parameters
       (\<lambda>name. if name = ''column'' then Some col
               else if name = ''min'' then Some lo
               else if name = ''max'' then Some hi
               else if name = ''keep_null'' then kn else None)"

definition counting_source :: "int \<Rightarrow> nat \<Rightarrow> nat" where
  "counting_source seed k = nat \<bar>seed\<bar> + 3 * k"

text \<open>The instance the constructor builds from a configuration of \<^verbatim>\<open>user_id\<close>.\<close>

definition user_id_transformer :: "(string \<Rightarrow> Parameterizer) \<Rightarrow> bool \<Rightarrow> RandomIntTransformer" where
  "user_id_transformer parameters kn =
     \<lparr>columnName = ''user_id'', keepNull = kn, rand = rand_New (counting_source 7),
      affectedColumns = [1 \<mapsto> ''user_id''], columnIdx = 1,
      columnParam = parameters ''column'', maxParam = parameters ''max'',
      minParam = parameters ''min'', keepNullParam = parameters ''keep_null''\<rparr>"

section \<open>The restore transaction controller (package \<^verbatim>\<open>restorers\<close>)\<close>

text \<open>
  The slice holds the tests of \<^verbatim>\<open>restoreBase\<close> only; the controller itself is
  modelled from the specification, and the scenarios of the tests are replayed against the
  model further down.
\<close>

subsection \<open>The database session\<close>

text \<open>
  Modelled from the spec: the destination session is an external collaborator. What the
  tests query is its state: the login role and the current role (\<^verbatim>\<open>current_user\<close>),
  the replication role with the value a \<^verbatim>\<open>RESET\<close> gives back, and one row of
  \<^verbatim>\<open>pg_trigger\<close> per trigger with its enabled flag (\<open>O\<close> enabled, \<open>D\<close> disabled).
  Switching to a role needs membership in it; toggling all triggers of a relation and
  changing the replication role need a privileged current role.
\<close>

record Trigger =
  nspname :: string
  relname :: string
  tgname :: string
  tgenabled :: char

record Session =
  session_user :: string
  current_user :: string
  superusers :: "string list"
  member_of :: "(string \<times> string) list"
  default_replication_role :: string
  session_replication_role :: string
  pg_trigger :: "Trigger list"

datatype statement =
    SetRole string
  | ResetRole
  | DisableTriggerAll string string
  | EnableTriggerAll string string
  | SetSessionReplicationRole string
  | ResetSessionReplicationRole

datatype pg_error = PermissionDenied statement

definition set_triggers :: "string \<Rightarrow> string \<Rightarrow> char \<Rightarrow> Trigger list \<Rightarrow> Trigger list" where
  "set_triggers ns tbl flag ts =
     map (\<lambda>t. if nspname t = ns \<and> relname t = tbl then t\<lparr>tgenabled := flag\<rparr> else t) ts"

definition privileged :: "Session \<Rightarrow> bool" where
  "privileged tx = (current_user tx \<in> set (superusers tx))"

fun Exec :: "statement \<Rightarrow> Session \<Rightarrow> pg_error + Session" where
  "Exec (SetRole role) tx =
     (if role = session_user tx \<or> session_user tx \<in> set (superusers tx)
         \<or> (session_user tx, role) \<in> set (member_of tx)
      then Inr (tx\<lparr>current_user := role\<rparr>)
      else Inl (PermissionDenied (SetRole role)))"
| "Exec ResetRole tx = Inr (tx\<lparr>current_user := session_user tx\<rparr>)"
| "Exec (DisableTriggerAll ns tbl) tx =
     (if privileged tx
      then Inr (tx\<lparr>pg_trigger := set_triggers ns tbl (CHR ''D'') (pg_trigger tx)\<rparr>)
      else Inl (PermissionDenied (DisableTriggerAll ns tbl)))"
| "Exec (EnableTriggerAll ns tbl) tx =
     (if privileged tx
      then Inr (tx\<lparr>pg_trigger := set_triggers ns tbl (CHR ''O'') (pg_trigger tx)\<rparr>)
      else Inl (PermissionDenied (EnableTriggerAll ns tbl)))"
| "Exec (SetSessionReplicationRole v) tx =
     (if privileged tx then Inr (tx\<lparr>session_replication_role := v\<rparr>)
      else Inl (PermissionDenied (SetSessionReplicationRole v)))"
| "Exec ResetSessionReplicationRole tx =
     (if privileged tx
      then Inr (tx\<lparr>session_replication_role := default_replication_role tx\<rparr>)
      else Inl (PermissionDenied ResetSessionReplicationRole))"

text \<open>Statements run one after the other; the first failure aborts the rest.\<close>

fun exec_all :: "statement list \<Rightarrow> Session \<Rightarrow> pg_error + Session" where
  "exec_all [] tx = Inr tx"
| "exec_all (q # qs) tx = (case Exec q tx of Inl e \<Rightarrow> Inl e | Inr tx' \<Rightarrow> exec_all qs tx')"

subsection \<open>Entries, settings, the controller\<close>

text \<open>
  Modelled from the spec: \<^verbatim>\<open>toc.Entry\<close> and \<^verbatim>\<open>pgrestore.DataSectionSettings\<close> are
  missing; the fields are those the tests set. An empty \<open>SuperUser\<close> means that no
  impersonation is configured.
\<close>

record Entry =
  Namespace :: string
  Tag :: string
  FileName :: "string option"

record DataSectionSettings =
  DisableTriggers :: bool
  UseSessionReplicationRoleReplica :: bool
  SuperUser :: string

type_synonym Storage = "string \<rightharpoonup> string"

record restoreBase =
  entry :: Entry
  st :: Storage
  opt :: DataSectionSettings

definition newRestoreBase :: "Entry \<Rightarrow> Storage \<Rightarrow> DataSectionSettings \<Rightarrow> restoreBase" where
  "newRestoreBase e s settings = \<lparr>entry = e, st = s, opt = settings\<rparr>"

text \<open>
  Modelled from the spec: \<^verbatim>\<open>restoreBase.setupTx\<close> (SetupSession) is missing. In order:
  if impersonation is configured, switch the active role to the configured privileged
  role; if trigger suppression is configured, disable all triggers on the entry's target
  relation; if replica mode is configured, set the session's constraint-enforcement mode
  to replica. Each step is one statement; a failure aborts setup.
\<close>

definition setupTx_statements :: "restoreBase \<Rightarrow> statement list" where
  "setupTx_statements rb =
     (if SuperUser (opt rb) \<noteq> [] then [SetRole (SuperUser (opt rb))] else []) @
     (if DisableTriggers (opt rb)
      then [DisableTriggerAll (Namespace (entry rb)) (Tag (entry rb))] else []) @
     (if UseSessionReplicationRoleReplica (opt rb)
      then [SetSessionReplicationRole ''replica''] else [])"

definition setupTx :: "restoreBase \<Rightarrow> Session \<Rightarrow> pg_error + Session" where
  "setupTx rb tx = exec_all (setupTx_statements rb) tx"

text \<open>
  Modelled from the spec: \<^verbatim>\<open>restoreBase.resetTx\<close> (TeardownSession) is missing. The
  inverse of setup in reverse order: restore the original constraint-enforcement mode,
  re-enable triggers, switch the role back to the original session role.
\<close>

definition resetTx_statements :: "restoreBase \<Rightarrow> statement list" where
  "resetTx_statements rb =
     (if UseSessionReplicationRoleReplica (opt rb)
      then [ResetSessionReplicationRole] else []) @
     (if DisableTriggers (opt rb)
      then [EnableTriggerAll (Namespace (entry rb)) (Tag (entry rb))] else []) @
     (if SuperUser (opt rb) \<noteq> [] then [ResetRole] else [])"

definition resetTx :: "restoreBase \<Rightarrow> Session \<Rightarrow> pg_error + Session" where
  "resetTx rb tx = exec_all (resetTx_statements rb) tx"

text \<open>The statement that undoes a statement of setup.\<close>

fun inverse_statement :: "statement \<Rightarrow> statement" where
  "inverse_statement (SetRole role) = ResetRole"
| "inverse_statement (DisableTriggerAll ns tbl) = EnableTriggerAll ns tbl"
| "inverse_statement (SetSessionReplicationRole v) = ResetSessionReplicationRole"
| "inverse_statement q = q"

text \<open>What the tests observe of a relation: the enabled flags of its triggers.\<close>

definition trigger_flags :: "string \<Rightarrow> string \<Rightarrow> Session \<Rightarrow> (string \<times> char) list" where
  "trigger_flags ns tbl tx =
     map (\<lambda>t. (tgname t, tgenabled t))
       (filter (\<lambda>t. nspname t = ns \<and> relname t = tbl) (pg_trigger tx))"

subsection \<open>Fetching the payload\<close>

text \<open>
  Modelled from the spec: the object store (\<^verbatim>\<open>GetObject\<close>) and the stream it returns
  are external collaborators. A stream holds the bytes not yet read and whether it has
  been closed; \<open>Read\<close> with a buffer of \<open>n\<close> bytes takes up to \<open>n\<close> of them.
\<close>

record ReadCloser =
  pending :: string
  closed :: bool

datatype io_error = ObjectNotFound string | NoFileName | DecompressionError | EOF | StreamClosed

definition GetObject :: "Storage \<Rightarrow> string \<Rightarrow> io_error + ReadCloser" where
  "GetObject s name =
     (case s name of
        None \<Rightarrow> Inl (ObjectNotFound name)
      | Some bytes \<Rightarrow> Inr \<lparr>pending = bytes, closed = False\<rparr>)"

definition Read :: "ReadCloser \<Rightarrow> nat \<Rightarrow> (io_error + string) \<times> ReadCloser" where
  "Read rc n =
     (if closed rc then (Inl StreamClosed, rc)
      else if pending rc = [] then (Inl EOF, rc)
      else (Inr (take n (pending rc)), rc\<lparr>pending := drop n (pending rc)\<rparr>))"

definition Close :: "ReadCloser \<Rightarrow> io_error option \<times> ReadCloser" where
  "Close rc = (None, rc\<lparr>closed := True\<rparr>)"

text \<open>Reading a stream to its end with a buffer of \<open>n\<close> bytes, \<open>fuel\<close> reads at most.\<close>

fun read_to_end :: "nat \<Rightarrow> ReadCloser \<Rightarrow> nat \<Rightarrow> string option" where
  "read_to_end 0 rc n = None"
| "read_to_end (Suc fuel) rc n =
     (case Read rc n of
        (Inl EOF, rc') \<Rightarrow> Some []
      | (Inl e, rc') \<Rightarrow> None
      | (Inr bytes, rc') \<Rightarrow> map_option (\<lambda>rest. bytes @ rest) (read_to_end fuel rc' n))"

text \<open>
  Modelled from the spec: \<^verbatim>\<open>restoreBase.getObject\<close> (FetchPayload) is missing. It opens
  the byte stream of the entry's backing object, decompresses it transparently and returns
  a readable, closable stream; a missing object or a decompression error is a failure.
  The codec belongs to Go's library: \<open>gunzip\<close> is the decoder, which gives the payload of
  a well-formed compressed byte string and nothing otherwise.
\<close>

definition getObject :: "(string \<Rightarrow> string option) \<Rightarrow> restoreBase \<Rightarrow> io_error + ReadCloser" where
  "getObject gunzip rb =
     (case FileName (entry rb) of
        None \<Rightarrow> Inl NoFileName
      | Some name \<Rightarrow>
          (case GetObject (st rb) name of
             Inl e \<Rightarrow> Inl e
           | Inr reader \<Rightarrow>
               (case gunzip (pending reader) of
                  None \<Rightarrow> Inl DecompressionError
                | Some payload \<Rightarrow> Inr \<lparr>pending = payload, closed = False\<rparr>)))"

text \<open>Setup followed at once by teardown, on the same transaction.\<close>

definition setup_then_reset :: "restoreBase \<Rightarrow> Session \<Rightarrow> pg_error + Session" where
  "setup_then_reset rb tx =
     (case setupTx rb tx of Inl e \<Rightarrow> Inl e | Inr tx' \<Rightarrow> resetTx rb tx')"

subsection \<open>The scenario of the tests\<close>

text \<open>
  The login role \<^verbatim>\<open>non_super_user\<close> is a member of the privileged role
  \<^verbatim>\<open>testuser\<close>; the table \<^verbatim>\<open>public.orders\<close> has the trigger
  \<^verbatim>\<open>trg_set_order_date\<close>. In \<open>orders_session_disabled\<close> the triggers of the table have
  been disabled beforehand, as \<^verbatim>\<open>Test_restoreBase_disableTriggers\<close> does through a
  privileged connection. The object \<^verbatim>\<open>test.tar.gz\<close> of the store holds an encoded
  payload.
\<close>

definition orders_session :: Session where
  "orders_session =
     \<lparr>session_user = ''non_super_user'', current_user = ''non_super_user'',
      superusers = [''testuser''], member_of = [(''non_super_user'', ''testuser'')],
      default_replication_role = ''origin'', session_replication_role = ''origin'',
      pg_trigger =
        [\<lparr>nspname = ''public'', relname = ''orders'', tgname = ''trg_set_order_date'',
          tgenabled = CHR ''O''\<rparr>]\<rparr>"

definition orders_session_disabled :: Session where
  "orders_session_disabled =
     orders_session\<lparr>pg_trigger :=
        [\<lparr>nspname = ''public'', relname = ''orders'', tgname = ''trg_set_order_date'',
          tgenabled = CHR ''D''\<rparr>]\<rparr>"

definition orders_entry :: Entry where
  "orders_entry = \<lparr>Namespace = ''public'', Tag = ''orders'', FileName = Some ''test.tar.gz''\<rparr>"

definition all_settings :: DataSectionSettings where
  "all_settings =
     \<lparr>DisableTriggers = True, UseSessionReplicationRoleReplica = True,
      SuperUser = ''testuser''\<rparr>"

text \<open>
  A decoder to run the model with: its encoding of a payload is the payload behind a
  two-byte magic number.
\<close>

definition magic_gunzip :: "string \<Rightarrow> string option" where
  "magic_gunzip bytes = (if take 2 bytes = ''GZ'' then Some (drop 2 bytes) else None)"

definition test_storage :: Storage where
  "test_storage = [''test.tar.gz'' \<mapsto> ''GZ20383 24ca7574'']"

section \<open>Facts shared by the proofs\<close>

lemmas definition_simps =
  InitParameters_def RandomIntTransformerDefinition_parameters_def
  SetRequired_def SetIsColumn_def SetDynamicModeSupport_def SetLinkParameter_def
  MustNewParameterDefinition_def SetDefaultValue_def SetAffected_def
  SetAllowedColumnTypes_def NewColumnProperties_def static_config_def

lemmas scan_simps =
  Scan_def scan_value_def parse_int64_def parse_bool_def parse_string_def digit_val_def

lemmas orders_simps =
  orders_world_def orders_row_def orders_row_null_def orders_driver_def
  user_id_transformer_def GetColumnByName_def

lemmas generator_simps =
  RandomInt_def Int63_def rand_New_def counting_source_def itoa_def digits.simps

lemma RandomInt_range:
  assumes "minVal < maxVal"
  shows "minVal \<le> fst (RandomInt g minVal maxVal) \<and> fst (RandomInt g minVal maxVal) \<le> maxVal"
proof -
  obtain d g' where d: "Int63 g = (d, g')" by (cases "Int63 g")
  have pos: "0 < maxVal - minVal + 1" using assms by simp
  have lo: "0 \<le> int d mod (maxVal - minVal + 1)"
    by (rule pos_mod_sign [OF pos])
  have hi: "int d mod (maxVal - minVal + 1) < maxVal - minVal + 1"
    by (rule pos_mod_bound [OF pos])
  have "fst (RandomInt g minVal maxVal) = minVal + int d mod (maxVal - minVal + 1)"
    by (simp add: RandomInt_def d)
  with lo hi show ?thesis by linarith
qed

lemma Transform_success:
  assumes mn: "scan_value parse_int64 (minParam rit) (Some (records w r)) = Inr minVal"
    and mx: "scan_value parse_int64 (maxParam rit) (Some (records w r)) = Inr maxVal"
    and lt: "minVal < maxVal"
    and val: "GetRawColumnValueByIdx (records w r) (columnIdx rit) = Inr val"
    and gen: "\<not> (IsNull val \<and> keepNull rit)"
  shows "Transform rit r w =
    ((Some r, None), rit\<lparr>rand := snd (RandomInt (rand rit) minVal maxVal)\<rparr>,
     w\<lparr>scans := scans w @ [Name (GetDefinition (minParam rit)), Name (GetDefinition (maxParam rit))],
       records := (records w)(r := (records w r)\<lparr>columns := (columns (records w r))
          [columnIdx rit := \<lparr>Data = itoa (fst (RandomInt (rand rit) minVal maxVal)), IsNull = False\<rparr>]\<rparr>)\<rparr>)"
proof -
  have inr: "columnIdx rit < length (columns (records w r))"
    using val by (simp add: GetRawColumnValueByIdx_def split: if_splits)
  show ?thesis
    using mn mx lt val gen inr
    by (auto simp: Transform_def Scan_def SetColumnValueByIdx_def split: prod.splits)
qed

lemma Transform_keep_null:
  assumes mn: "scan_value parse_int64 (minParam rit) (Some (records w r)) = Inr minVal"
    and mx: "scan_value parse_int64 (maxParam rit) (Some (records w r)) = Inr maxVal"
    and lt: "minVal < maxVal"
    and val: "GetRawColumnValueByIdx (records w r) (columnIdx rit) = Inr val"
    and gen: "IsNull val" "keepNull rit"
  shows "Transform rit r w =
    ((Some r, None), rit,
     w\<lparr>scans := scans w @ [Name (GetDefinition (minParam rit)), Name (GetDefinition (maxParam rit))]\<rparr>)"
  using assms by (simp add: Transform_def Scan_def)

lemma Transform_affectedColumns:
  "affectedColumns (fst (snd (Transform rit r w))) = affectedColumns rit"
  by (simp add: Transform_def Scan_def Let_def split: sum.splits prod.splits)

lemma apply_operation_affectedColumns:
  "affectedColumns (fst (apply_operation x s)) = affectedColumns (fst s)"
  by (cases x; cases s) (simp_all add: Init_def Done_def Transform_affectedColumns)

lemma apply_operations_affectedColumns:
  "affectedColumns (fst (apply_operations xs s)) = affectedColumns (fst s)"
  by (induction xs arbitrary: s) (simp_all add: apply_operation_affectedColumns)


section \<open>The claims about the RandomInt transformer\<close>

text \<open>
  Claim C2. For every record, \<open>Transform\<close> returns an error (and a nil record) whenever
  the two bounds resolve and the resolved \<open>min\<close> is greater than or equal to the resolved
  \<open>max\<close>.
\<close>

theorem Transform_fails_when_min_ge_max:
  assumes "scan_value parse_int64 (minParam rit) (Some (records w r)) = Inr minVal"
    and "scan_value parse_int64 (maxParam rit) (Some (records w r)) = Inr maxVal"
    and "minVal \<ge> maxVal"
  shows "fst (Transform rit r w) = (None, Some (MaxMustBeGreater minVal maxVal))"
  using assms by (simp add: Transform_def Scan_def)

theorem Transform_fails_when_min_ge_max_witness:
  "scan_value parse_int64
     (minParam (user_id_transformer (static_config ''user_id'' ''10'' ''5'' None) True))
     (Some (records orders_world 0)) = Inr 10
   \<and> scan_value parse_int64
     (maxParam (user_id_transformer (static_config ''user_id'' ''10'' ''5'' None) True))
     (Some (records orders_world 0)) = Inr 5
   \<and> (10::int) \<ge> 5
   \<and> fst (Transform (user_id_transformer (static_config ''user_id'' ''10'' ''5'' None) True) 0
          orders_world) = (None, Some (MaxMustBeGreater 10 5))"
proof -
  let ?T = "user_id_transformer (static_config ''user_id'' ''10'' ''5'' None) True"
  have lo: "scan_value parse_int64 (minParam ?T) (Some (records orders_world 0)) = Inr 10"
    by (simp add: user_id_transformer_def definition_simps scan_simps)
  have hi: "scan_value parse_int64 (maxParam ?T) (Some (records orders_world 0)) = Inr 5"
    by (simp add: user_id_transformer_def definition_simps scan_simps)
  have ge: "(10::int) \<ge> 5" by simp
  show ?thesis
    using Transform_fails_when_min_ge_max [OF lo hi ge] lo hi by simp
qed

text \<open>
  Claim C10. Whenever \<open>Transform\<close> returns an error, whatever its cause, the returned
  record is nil and every record of the store, the input record among them, is as it was:
  no column slot has been written.
\<close>

theorem Transform_error_leaves_record:
  assumes "snd (fst (Transform rit r w)) = Some e"
  shows "fst (fst (Transform rit r w)) = None
       \<and> records (snd (snd (Transform rit r w))) = records w"
  using assms
  by (auto simp: Transform_def Scan_def Let_def split: sum.splits if_splits prod.splits)

theorem Transform_error_leaves_record_witness:
  "snd (fst (Transform (user_id_transformer (static_config ''user_id'' ''x'' ''5'' None) True) 0
          orders_world))
     = Some (UnableToScanParam ''min'' (ToolkitError ''cannot scan value x''))
   \<and> fst (fst (Transform (user_id_transformer (static_config ''user_id'' ''x'' ''5'' None) True) 0
          orders_world)) = None
   \<and> records (snd (snd (Transform
          (user_id_transformer (static_config ''user_id'' ''x'' ''5'' None) True) 0 orders_world)))
     = records orders_world"
proof -
  let ?T = "user_id_transformer (static_config ''user_id'' ''x'' ''5'' None) True"
  have err: "snd (fst (Transform ?T 0 orders_world))
      = Some (UnableToScanParam ''min'' (ToolkitError ''cannot scan value x''))"
    by (simp add: Transform_def user_id_transformer_def definition_simps scan_simps)
  show ?thesis
    using Transform_error_leaves_record [OF err] err by simp
qed

text \<open>
  Claim C7. When the \<^verbatim>\<open>column\<close> parameter scans to a name that the driver cannot
  resolve, the constructor returns no instance, and its error is the not-found error that
  carries this name and prints it in its message.
\<close>

theorem NewRandomIntTransformer_column_not_found:
  assumes "scan_value parse_string (parameters ''column'') None = Inr name"
    and "GetColumnByName driver name = None"
  shows "fst (NewRandomIntTransformer NewSource now driver parameters w)
           = (None, [], Some (ColumnIsNotFound name))
       \<and> Error (ColumnIsNotFound name) = ''column with name '' @ name @ '' is not found''"
  using assms by (simp add: NewRandomIntTransformer_def Scan_def)

theorem NewRandomIntTransformer_column_not_found_witness:
  "scan_value parse_string (static_config ''order_date'' ''1'' ''10'' None ''column'') None
     = Inr ''order_date''
   \<and> GetColumnByName orders_driver ''order_date'' = None
   \<and> fst (NewRandomIntTransformer counting_source 7 orders_driver
            (static_config ''order_date'' ''1'' ''10'' None) orders_world)
       = (None, [], Some (ColumnIsNotFound ''order_date''))
   \<and> Error (ColumnIsNotFound ''order_date'') = ''column with name order_date is not found''"
proof -
  have col: "scan_value parse_string (static_config ''order_date'' ''1'' ''10'' None ''column'') None
      = Inr ''order_date''"
    by (simp add: definition_simps scan_simps)
  have absent: "GetColumnByName orders_driver ''order_date'' = None"
    by (simp add: orders_simps)
  show ?thesis
    using NewRandomIntTransformer_column_not_found
            [where parameters = "static_config ''order_date'' ''1'' ''10'' None"
               and NewSource = counting_source and now = 7 and w = orders_world,
             OF col absent] col absent
    by simp
qed

text \<open>
  Claim C8. For every instance the constructor returns, \<open>GetAffectedColumns\<close> is exactly
  the one-entry map from the index to the name of the column that the driver resolved at
  construction, and it stays so after any sequence of \<open>Init\<close>, \<open>Transform\<close> (on any
  records, in any world) and \<open>Done\<close>.
\<close>

theorem GetAffectedColumns_fixed:
  assumes "fst (NewRandomIntTransformer NewSource now driver parameters w) = (Some rit, ws, err)"
  shows "GetAffectedColumns rit = [columnIdx rit \<mapsto> columnName rit]
       \<and> scan_value parse_string (parameters ''column'') None = Inr (columnName rit)
       \<and> map_option fst (GetColumnByName driver (columnName rit)) = Some (columnIdx rit)
       \<and> (\<forall>ops w'. GetAffectedColumns (fst (apply_operations ops (rit, w')))
              = [columnIdx rit \<mapsto> columnName rit])"
proof -
  have fixed: "affectedColumns rit = [columnIdx rit \<mapsto> columnName rit]
       \<and> scan_value parse_string (parameters ''column'') None = Inr (columnName rit)
       \<and> map_option fst (GetColumnByName driver (columnName rit)) = Some (columnIdx rit)"
    using assms
    by (auto simp: NewRandomIntTransformer_def Scan_def Let_def
             split: sum.splits option.splits prod.splits)
  then show ?thesis
    by (simp add: GetAffectedColumns_def apply_operations_affectedColumns)
qed

lemma new_user_id_default:
  "NewRandomIntTransformer counting_source 7 orders_driver
       (static_config ''user_id'' lo hi None) orders_world
     = ((Some (user_id_transformer (static_config ''user_id'' lo hi None) True), [], None),
        orders_world\<lparr>scans := [''column'', ''keep_null'']\<rparr>)"
  by (simp add: NewRandomIntTransformer_def Scan_def scan_value_def parse_string_def
       parse_bool_def definition_simps orders_simps rand_New_def)

theorem GetAffectedColumns_fixed_witness:
  "fst (NewRandomIntTransformer counting_source 7 orders_driver
          (static_config ''user_id'' ''1'' ''10'' None) orders_world)
     = (Some (user_id_transformer (static_config ''user_id'' ''1'' ''10'' None) True), [], None)
   \<and> GetAffectedColumns (user_id_transformer (static_config ''user_id'' ''1'' ''10'' None) True)
     = [1 \<mapsto> ''user_id'']
   \<and> GetAffectedColumns (fst (apply_operations [OpInit, OpTransform 0, OpTransform 1, OpDone]
        (user_id_transformer (static_config ''user_id'' ''1'' ''10'' None) True, orders_world)))
     = [1 \<mapsto> ''user_id'']"
proof -
  let ?T = "user_id_transformer (static_config ''user_id'' ''1'' ''10'' None) True"
  have new: "fst (NewRandomIntTransformer counting_source 7 orders_driver
          (static_config ''user_id'' ''1'' ''10'' None) orders_world) = (Some ?T, [], None)"
    by (simp add: new_user_id_default)
  have idx: "columnIdx ?T = 1" and name: "columnName ?T = ''user_id''"
    by (simp_all add: user_id_transformer_def)
  note fixed = GetAffectedColumns_fixed [OF new]
  from fixed have first: "GetAffectedColumns ?T = [columnIdx ?T \<mapsto> columnName ?T]"
    by (rule conjunct1)
  from fixed have "\<forall>ops w'. GetAffectedColumns (fst (apply_operations ops (?T, w')))
      = [columnIdx ?T \<mapsto> columnName ?T]"
    by (elim conjE)
  then have later: "GetAffectedColumns (fst (apply_operations
        [OpInit, OpTransform 0, OpTransform 1, OpDone] (?T, orders_world)))
      = [columnIdx ?T \<mapsto> columnName ?T]"
    by (elim allE)
  show ?thesis
    unfolding new first later idx name by simp
qed

text \<open>
  Claim C4. When the bounds resolve to \<open>min < max\<close> and the bound column of the record is
  not null, or keep-null is off, \<open>Transform\<close> returns the pointer it was given and no
  error; the record at that address differs from the one before only in the slot of the
  bound column, which now holds the encoding of an integer \<open>v\<close> with
  \<open>min \<le> v \<le> max\<close> and is not null; every other record of the store is unchanged.
\<close>

theorem Transform_overwrites_bound_column:
  assumes "scan_value parse_int64 (minParam rit) (Some (records w r)) = Inr minVal"
    and "scan_value parse_int64 (maxParam rit) (Some (records w r)) = Inr maxVal"
    and "minVal < maxVal"
    and "GetRawColumnValueByIdx (records w r) (columnIdx rit) = Inr val"
    and "\<not> IsNull val \<or> \<not> keepNull rit"
  shows "\<exists>v. minVal \<le> v \<and> v \<le> maxVal
           \<and> fst (Transform rit r w) = (Some r, None)
           \<and> records (snd (snd (Transform rit r w))) r
               = (records w r)\<lparr>columns := (columns (records w r))
                    [columnIdx rit := \<lparr>Data = itoa v, IsNull = False\<rparr>]\<rparr>
           \<and> (\<forall>j. j \<noteq> columnIdx rit \<longrightarrow>
                  columns (records (snd (snd (Transform rit r w))) r) ! j
                    = columns (records w r) ! j)
           \<and> length (columns (records (snd (snd (Transform rit r w))) r))
               = length (columns (records w r))
           \<and> (\<forall>a. a \<noteq> r \<longrightarrow> records (snd (snd (Transform rit r w))) a = records w a)"
proof -
  let ?v = "fst (RandomInt (rand rit) minVal maxVal)"
  have gen: "\<not> (IsNull val \<and> keepNull rit)" using assms(5) by blast
  note run = Transform_success [OF assms(1) assms(2) assms(3) assms(4) gen]
  have "minVal \<le> ?v \<and> ?v \<le> maxVal"
    by (rule RandomInt_range [OF assms(3)])
  then show ?thesis
    by (intro exI [of _ ?v]) (simp add: run)
qed

theorem Transform_overwrites_bound_column_witness:
  "scan_value parse_int64
     (minParam (user_id_transformer (static_config ''user_id'' ''1'' ''10'' None) True))
     (Some (records orders_world 0)) = Inr 1
   \<and> scan_value parse_int64
     (maxParam (user_id_transformer (static_config ''user_id'' ''1'' ''10'' None) True))
     (Some (records orders_world 0)) = Inr 10
   \<and> (1::int) < 10
   \<and> GetRawColumnValueByIdx (records orders_world 0) 1 = Inr \<lparr>Data = ''2'', IsNull = False\<rparr>
   \<and> fst (Transform (user_id_transformer (static_config ''user_id'' ''1'' ''10'' None) True) 0
          orders_world) = (Some 0, None)
   \<and> (\<exists>v. (1::int) \<le> v \<and> v \<le> 10 \<and>
          columns (records (snd (snd (Transform
             (user_id_transformer (static_config ''user_id'' ''1'' ''10'' None) True) 0
             orders_world))) 0)
          = [\<lparr>Data = ''1'', IsNull = False\<rparr>, \<lparr>Data = itoa v, IsNull = False\<rparr>,
             \<lparr>Data = ''100.50'', IsNull = False\<rparr>])"
proof -
  let ?T = "user_id_transformer (static_config ''user_id'' ''1'' ''10'' None) True"
  have lo: "scan_value parse_int64 (minParam ?T) (Some (records orders_world 0)) = Inr 1"
    by (simp add: user_id_transformer_def definition_simps scan_simps)
  have hi: "scan_value parse_int64 (maxParam ?T) (Some (records orders_world 0)) = Inr 10"
    by (simp add: user_id_transformer_def definition_simps scan_simps)
  have lt: "(1::int) < 10" by simp
  have val: "GetRawColumnValueByIdx (records orders_world 0) (columnIdx ?T)
      = Inr \<lparr>Data = ''2'', IsNull = False\<rparr>"
    by (simp add: GetRawColumnValueByIdx_def orders_simps)
  have gen: "\<not> IsNull \<lparr>Data = ''2'', IsNull = False\<rparr> \<or> \<not> keepNull ?T" by simp
  have idx: "columnIdx ?T = 1" by (simp add: user_id_transformer_def)
  have row: "columns (records orders_world 0)
      = [\<lparr>Data = ''1'', IsNull = False\<rparr>, \<lparr>Data = ''2'', IsNull = False\<rparr>,
         \<lparr>Data = ''100.50'', IsNull = False\<rparr>]"
    by (simp add: orders_simps)
  from Transform_overwrites_bound_column [OF lo hi lt val gen]
  obtain v where v: "1 \<le> v" "v \<le> 10"
    and res: "fst (Transform ?T 0 orders_world) = (Some 0, None)"
    and upd: "records (snd (snd (Transform ?T 0 orders_world))) 0
               = (records orders_world 0)\<lparr>columns := (columns (records orders_world 0))
                    [columnIdx ?T := \<lparr>Data = itoa v, IsNull = False\<rparr>]\<rparr>"
    by blast
  have "columns (records (snd (snd (Transform ?T 0 orders_world))) 0)
          = [\<lparr>Data = ''1'', IsNull = False\<rparr>, \<lparr>Data = itoa v, IsNull = False\<rparr>,
             \<lparr>Data = ''100.50'', IsNull = False\<rparr>]"
    by (simp add: upd idx row)
  with v res lo hi val idx show ?thesis by auto
qed

lemma NewRandomIntTransformer_success:
  assumes "scan_value parse_string (parameters ''column'') None = Inr name"
    and "GetColumnByName driver name = Some (idx, c)"
    and "scan_value parse_bool (parameters ''keep_null'') None = Inr kn"
  shows "NewRandomIntTransformer NewSource now driver parameters w =
    ((Some \<lparr>columnName = name, keepNull = kn, rand = rand_New (NewSource now),
             affectedColumns = [idx \<mapsto> name], columnIdx = idx,
             columnParam = parameters ''column'', maxParam = parameters ''max'',
             minParam = parameters ''min'', keepNullParam = parameters ''keep_null''\<rparr>,
      [], None),
     w\<lparr>scans := scans w @ [Name (GetDefinition (parameters ''column'')),
                             Name (GetDefinition (parameters ''keep_null''))]\<rparr>)"
  using assms by (simp add: NewRandomIntTransformer_def Scan_def Let_def)

lemma Transform_bounds_error:
  assumes "scan_value parse_int64 (minParam rit) (Some (records w r)) = Inr minVal"
    and "scan_value parse_int64 (maxParam rit) (Some (records w r)) = Inr maxVal"
    and "minVal \<ge> maxVal"
  shows "Transform rit r w =
    ((None, Some (MaxMustBeGreater minVal maxVal)), rit,
     w\<lparr>scans := scans w @ [Name (GetDefinition (minParam rit)),
                             Name (GetDefinition (maxParam rit))]\<rparr>)"
  using assms by (simp add: Transform_def Scan_def)

text \<open>
  Claim C3, as stated, fails: the constructor never looks at the bounds (the check that
  did is commented out in the source). With \<open>min = 10\<close> and \<open>max = 5\<close> it returns an
  instance and no error.
\<close>

theorem NewRandomIntTransformer_accepts_min_ge_max:
  "scan_value parse_int64 (static_config ''user_id'' ''10'' ''5'' None ''min'') None = Inr 10
   \<and> scan_value parse_int64 (static_config ''user_id'' ''10'' ''5'' None ''max'') None = Inr 5
   \<and> (10::int) \<ge> 5
   \<and> fst (NewRandomIntTransformer counting_source 7 orders_driver
            (static_config ''user_id'' ''10'' ''5'' None) orders_world)
       = (Some (user_id_transformer (static_config ''user_id'' ''10'' ''5'' None) True), [], None)"
  by (simp add: new_user_id_default) (simp add: definition_simps scan_simps)

text \<open>
  Claim C3, amended. Construction does not depend on the bounds: whenever the
  \<^verbatim>\<open>column\<close> parameter scans to a name the driver resolves and \<^verbatim>\<open>keep_null\<close> scans,
  the constructor returns an instance holding the \<^verbatim>\<open>min\<close> and \<^verbatim>\<open>max\<close> handles
  unscanned, also when they hold \<open>min \<ge> max\<close>; the failure comes from each call of
  \<open>Transform\<close> on that instance in which the bounds resolve to \<open>min \<ge> max\<close>.
\<close>

theorem NewRandomIntTransformer_defers_bounds_check:
  assumes "scan_value parse_string (parameters ''column'') None = Inr name"
    and "GetColumnByName driver name = Some (idx, c)"
    and "scan_value parse_bool (parameters ''keep_null'') None = Inr kn"
  shows "\<exists>rit. fst (NewRandomIntTransformer NewSource now driver parameters w)
                 = (Some rit, [], None)
           \<and> minParam rit = parameters ''min'' \<and> maxParam rit = parameters ''max''
           \<and> (\<forall>r w' minVal maxVal.
                 scan_value parse_int64 (parameters ''min'') (Some (records w' r)) = Inr minVal
                 \<and> scan_value parse_int64 (parameters ''max'') (Some (records w' r)) = Inr maxVal
                 \<and> minVal \<ge> maxVal
                 \<longrightarrow> fst (Transform rit r w') = (None, Some (MaxMustBeGreater minVal maxVal)))"
proof -
  let ?rit = "\<lparr>columnName = name, keepNull = kn, rand = rand_New (NewSource now),
             affectedColumns = [idx \<mapsto> name], columnIdx = idx,
             columnParam = parameters ''column'', maxParam = parameters ''max'',
             minParam = parameters ''min'', keepNullParam = parameters ''keep_null''\<rparr>"
  have new: "fst (NewRandomIntTransformer NewSource now driver parameters w)
      = (Some ?rit, [], None)"
    by (simp add: NewRandomIntTransformer_success [OF assms])
  have fails: "fst (Transform ?rit r w') = (None, Some (MaxMustBeGreater minVal maxVal))"
    if "scan_value parse_int64 (parameters ''min'') (Some (records w' r)) = Inr minVal"
      and "scan_value parse_int64 (parameters ''max'') (Some (records w' r)) = Inr maxVal"
      and "minVal \<ge> maxVal" for r w' minVal maxVal
    using that by (simp add: Transform_bounds_error)
  show ?thesis
    using new fails by (intro exI [of _ ?rit]) simp
qed

theorem NewRandomIntTransformer_defers_bounds_check_witness:
  "scan_value parse_string (static_config ''user_id'' ''10'' ''5'' None ''column'') None
     = Inr ''user_id''
   \<and> GetColumnByName orders_driver ''user_id''
     = Some (1, \<lparr>cName = ''user_id'', cTypeName = ''int4''\<rparr>)
   \<and> scan_value parse_bool (static_config ''user_id'' ''10'' ''5'' None ''keep_null'') None
     = Inr True
   \<and> (\<exists>rit. fst (NewRandomIntTransformer counting_source 7 orders_driver
                   (static_config ''user_id'' ''10'' ''5'' None) orders_world)
                = (Some rit, [], None)
          \<and> fst (Transform rit 0 orders_world) = (None, Some (MaxMustBeGreater 10 5)))"
proof -
  let ?P = "static_config ''user_id'' ''10'' ''5'' None"
  have col: "scan_value parse_string (?P ''column'') None = Inr ''user_id''"
    by (simp add: definition_simps scan_simps)
  have drv: "GetColumnByName orders_driver ''user_id''
      = Some (1, \<lparr>cName = ''user_id'', cTypeName = ''int4''\<rparr>)"
    by (simp add: orders_simps)
  have kn: "scan_value parse_bool (?P ''keep_null'') None = Inr True"
    by (simp add: definition_simps scan_simps)
  have lo: "scan_value parse_int64 (?P ''min'') (Some (records orders_world 0)) = Inr 10"
    by (simp add: definition_simps scan_simps)
  have hi: "scan_value parse_int64 (?P ''max'') (Some (records orders_world 0)) = Inr 5"
    by (simp add: definition_simps scan_simps)
  from NewRandomIntTransformer_defers_bounds_check
         [where parameters = ?P and NewSource = counting_source and now = 7
            and w = orders_world, OF col drv kn]
  obtain rit where new: "fst (NewRandomIntTransformer counting_source 7 orders_driver ?P
        orders_world) = (Some rit, [], None)"
    and later: "\<forall>r w' minVal maxVal.
                 scan_value parse_int64 (?P ''min'') (Some (records w' r)) = Inr minVal
                 \<and> scan_value parse_int64 (?P ''max'') (Some (records w' r)) = Inr maxVal
                 \<and> minVal \<ge> maxVal
                 \<longrightarrow> fst (Transform rit r w') = (None, Some (MaxMustBeGreater minVal maxVal))"
    by (elim exE conjE)
  from later have "scan_value parse_int64 (?P ''min'') (Some (records orders_world 0)) = Inr 10
                 \<and> scan_value parse_int64 (?P ''max'') (Some (records orders_world 0)) = Inr 5
                 \<and> (10::int) \<ge> 5
                 \<longrightarrow> fst (Transform rit 0 orders_world) = (None, Some (MaxMustBeGreater 10 5))"
    by (elim allE)
  with lo hi have "fst (Transform rit 0 orders_world) = (None, Some (MaxMustBeGreater 10 5))"
    by simp
  with new col drv kn show ?thesis by (intro conjI exI [of _ rit])
qed

text \<open>
  Claim C5, as stated, fails where the bounds do not define a range: the check of the
  bounds comes before the test for null, so a null column with keep-null set is answered
  with the error, not with the record.
\<close>

theorem Transform_null_with_invalid_bounds:
  "GetRawColumnValueByIdx (records orders_world 1) 1 = Inr \<lparr>Data = [], IsNull = True\<rparr>
   \<and> keepNull (user_id_transformer (static_config ''user_id'' ''5'' ''5'' None) True)
   \<and> fst (Transform (user_id_transformer (static_config ''user_id'' ''5'' ''5'' None) True) 1
          orders_world) = (None, Some (MaxMustBeGreater 5 5))"
  by (simp add: Transform_def user_id_transformer_def definition_simps scan_simps
        GetRawColumnValueByIdx_def orders_world_def orders_row_null_def)

text \<open>
  Claim C5, amended. For every record whose bound column value is null, when the bounds
  resolve to \<open>min < max\<close>: if the keep-null flag is set, \<open>Transform\<close> returns the
  record and no record of the store has changed; if it is not set, the null slot receives
  a generated value \<open>v\<close> with \<open>min \<le> v \<le> max\<close> and is no longer null. The flag
  is \<open>true\<close> for every instance constructed from a configuration that does not supply
  \<^verbatim>\<open>keep_null\<close>.
\<close>

theorem Transform_null_column:
  assumes "scan_value parse_int64 (minParam rit) (Some (records w r)) = Inr minVal"
    and "scan_value parse_int64 (maxParam rit) (Some (records w r)) = Inr maxVal"
    and "minVal < maxVal"
    and "GetRawColumnValueByIdx (records w r) (columnIdx rit) = Inr val"
    and "IsNull val"
  shows "(keepNull rit \<longrightarrow>
            fst (Transform rit r w) = (Some r, None)
          \<and> records (snd (snd (Transform rit r w))) = records w)
       \<and> (\<not> keepNull rit \<longrightarrow>
            (\<exists>v. minVal \<le> v \<and> v \<le> maxVal
               \<and> fst (Transform rit r w) = (Some r, None)
               \<and> GetRawColumnValueByIdx (records (snd (snd (Transform rit r w))) r)
                    (columnIdx rit) = Inr \<lparr>Data = itoa v, IsNull = False\<rparr>))
       \<and> (\<forall>NewSource now driver config w0 rit0 ws err.
             config ''keep_null'' = None
           \<and> fst (NewRandomIntTransformer NewSource now driver
                    (InitParameters RandomIntTransformerDefinition_parameters config) w0)
               = (Some rit0, ws, err)
           \<longrightarrow> keepNull rit0)"
proof (intro conjI impI allI)
  assume kn: "keepNull rit"
  note run = Transform_keep_null [OF assms(1) assms(2) assms(3) assms(4) assms(5) kn]
  show "fst (Transform rit r w) = (Some r, None)" by (simp add: run)
  show "records (snd (snd (Transform rit r w))) = records w" by (simp add: run)
next
  assume "\<not> keepNull rit"
  then have gen: "\<not> (IsNull val \<and> keepNull rit)" by simp
  let ?v = "fst (RandomInt (rand rit) minVal maxVal)"
  note run = Transform_success [OF assms(1) assms(2) assms(3) assms(4) gen]
  have inr: "columnIdx rit < length (columns (records w r))"
    using assms(4) by (simp add: GetRawColumnValueByIdx_def split: if_splits)
  have "minVal \<le> ?v \<and> ?v \<le> maxVal"
    by (rule RandomInt_range [OF assms(3)])
  then show "\<exists>v. minVal \<le> v \<and> v \<le> maxVal
               \<and> fst (Transform rit r w) = (Some r, None)
               \<and> GetRawColumnValueByIdx (records (snd (snd (Transform rit r w))) r)
                    (columnIdx rit) = Inr \<lparr>Data = itoa v, IsNull = False\<rparr>"
    using inr by (intro exI [of _ ?v]) (simp add: run GetRawColumnValueByIdx_def)
next
  fix NewSource now driver config w0 rit0 ws err
  assume h: "config ''keep_null'' = None
           \<and> fst (NewRandomIntTransformer NewSource now driver
                    (InitParameters RandomIntTransformerDefinition_parameters config) w0)
               = (Some rit0, ws, err)"
  have default: "scan_value parse_bool
      (InitParameters RandomIntTransformerDefinition_parameters config ''keep_null'') None
      = Inr True"
    using h by (simp add: definition_simps scan_simps)
  from h show "keepNull rit0"
    by (auto simp: NewRandomIntTransformer_def Scan_def Let_def default
             split: sum.splits option.splits prod.splits)
qed


theorem Transform_null_column_witness:
  "GetRawColumnValueByIdx (records orders_world 1) 1 = Inr \<lparr>Data = [], IsNull = True\<rparr>
   \<and> keepNull (user_id_transformer (static_config ''user_id'' ''1'' ''10'' None) True)
   \<and> fst (Transform (user_id_transformer (static_config ''user_id'' ''1'' ''10'' None) True) 1
          orders_world) = (Some 1, None)
   \<and> records (snd (snd (Transform
          (user_id_transformer (static_config ''user_id'' ''1'' ''10'' None) True) 1
          orders_world))) = records orders_world
   \<and> \<not> keepNull (user_id_transformer (static_config ''user_id'' ''1'' ''10'' (Some ''false''))
          False)
   \<and> (\<exists>v. (1::int) \<le> v \<and> v \<le> 10
        \<and> GetRawColumnValueByIdx (records (snd (snd (Transform
             (user_id_transformer (static_config ''user_id'' ''1'' ''10'' (Some ''false'')) False)
             1 orders_world))) 1) 1 = Inr \<lparr>Data = itoa v, IsNull = False\<rparr>)
   \<and> fst (NewRandomIntTransformer counting_source 7 orders_driver
            (static_config ''user_id'' ''1'' ''10'' None) orders_world)
       = (Some (user_id_transformer (static_config ''user_id'' ''1'' ''10'' None) True), [], None)"
proof -
  let ?P = "static_config ''user_id'' ''1'' ''10'' None"
  let ?Q = "static_config ''user_id'' ''1'' ''10'' (Some ''false'')"
  let ?T = "user_id_transformer ?P True"
  let ?F = "user_id_transformer ?Q False"
  let ?null = "\<lparr>Data = [], IsNull = True\<rparr>"
  have idx: "columnIdx ?T = 1" "columnIdx ?F = 1" by (simp_all add: user_id_transformer_def)
  have flag: "keepNull ?T" "\<not> keepNull ?F" by (simp_all add: user_id_transformer_def)
  have val: "GetRawColumnValueByIdx (records orders_world 1) 1 = Inr ?null"
    by (simp add: GetRawColumnValueByIdx_def orders_world_def orders_row_null_def)
  have null: "IsNull ?null" by simp
  have lt: "(1::int) < 10" by simp
  have loT: "scan_value parse_int64 (minParam ?T) (Some (records orders_world 1)) = Inr 1"
    and hiT: "scan_value parse_int64 (maxParam ?T) (Some (records orders_world 1)) = Inr 10"
    and loF: "scan_value parse_int64 (minParam ?F) (Some (records orders_world 1)) = Inr 1"
    and hiF: "scan_value parse_int64 (maxParam ?F) (Some (records orders_world 1)) = Inr 10"
    by (simp_all add: user_id_transformer_def definition_simps scan_simps)
  note kept = Transform_null_column [OF loT hiT lt, of ?null, OF _ null, unfolded idx, OF val]
  note drawn = Transform_null_column [OF loF hiF lt, of ?null, OF _ null, unfolded idx, OF val]
  have same: "fst (Transform ?T 1 orders_world) = (Some 1, None)
      \<and> records (snd (snd (Transform ?T 1 orders_world))) = records orders_world"
    by (rule kept [THEN conjunct1, THEN mp, OF flag(1)])
  have new: "\<exists>v. (1::int) \<le> v \<and> v \<le> 10
        \<and> fst (Transform ?F 1 orders_world) = (Some 1, None)
        \<and> GetRawColumnValueByIdx (records (snd (snd (Transform ?F 1 orders_world))) 1) 1
             = Inr \<lparr>Data = itoa v, IsNull = False\<rparr>"
    by (rule drawn [THEN conjunct2, THEN conjunct1, THEN mp, OF flag(2)])
  then have new': "\<exists>v. (1::int) \<le> v \<and> v \<le> 10
        \<and> GetRawColumnValueByIdx (records (snd (snd (Transform ?F 1 orders_world))) 1) 1
             = Inr \<lparr>Data = itoa v, IsNull = False\<rparr>"
    by (elim exE conjE) (intro exI conjI)
  have built: "fst (NewRandomIntTransformer counting_source 7 orders_driver ?P orders_world)
      = (Some ?T, [], None)"
    by (simp add: new_user_id_default)
  show ?thesis
    using val flag same new' built by (intro conjI) simp_all
qed

text \<open>
  Claim C6, as stated, fails for the bounds. With static \<^verbatim>\<open>min\<close> and \<^verbatim>\<open>max\<close> the
  constructor scans \<^verbatim>\<open>column\<close> and \<^verbatim>\<open>keep_null\<close> only, and each of two calls of
  \<open>Transform\<close> scans both bounds again.
\<close>

theorem static_bounds_scanned_per_row:
  "\<not> IsDynamic (static_config ''user_id'' ''1'' ''10'' None ''min'')
   \<and> \<not> IsDynamic (static_config ''user_id'' ''1'' ''10'' None ''max'')
   \<and> NewRandomIntTransformer counting_source 7 orders_driver
        (static_config ''user_id'' ''1'' ''10'' None) orders_world
       = ((Some (user_id_transformer (static_config ''user_id'' ''1'' ''10'' None) True), [], None),
          orders_world\<lparr>scans := [''column'', ''keep_null'']\<rparr>)
   \<and> scans (snd (apply_operations [OpTransform 0, OpTransform 1]
        (user_id_transformer (static_config ''user_id'' ''1'' ''10'' None) True,
         orders_world\<lparr>scans := [''column'', ''keep_null'']\<rparr>)))
       = [''column'', ''keep_null'', ''min'', ''max'', ''min'', ''max'']"
proof -
  let ?P = "static_config ''user_id'' ''1'' ''10'' None"
  have static: "\<not> IsDynamic (?P ''min'')" "\<not> IsDynamic (?P ''max'')"
    by (simp_all add: definition_simps)
  have run: "scans (snd (apply_operations [OpTransform 0, OpTransform 1]
        (user_id_transformer ?P True, orders_world\<lparr>scans := [''column'', ''keep_null'']\<rparr>)))
       = [''column'', ''keep_null'', ''min'', ''max'', ''min'', ''max'']"
    by (simp add: Transform_def user_id_transformer_def definition_simps scan_simps
          GetRawColumnValueByIdx_def SetColumnValueByIdx_def orders_world_def orders_row_def
          orders_row_null_def RandomInt_def Int63_def rand_New_def counting_source_def)
  show ?thesis
    using static run by (simp add: new_user_id_default)
qed

text \<open>
  Claim C6, amended. The constructor scans \<^verbatim>\<open>column\<close> and, once the column is
  resolved, \<^verbatim>\<open>keep_null\<close>, each once, and scans nothing else; the instance it returns
  holds the two scanned values, and \<open>Transform\<close> never changes them nor scans these two
  parameters again. The bounds are not scanned at construction: every call of
  \<open>Transform\<close> scans \<^verbatim>\<open>min\<close> and, when that scan succeeds, \<^verbatim>\<open>max\<close>, whether the
  handles are static or dynamic.
\<close>

theorem scans_at_construction_and_per_row:
  "scans (snd (NewRandomIntTransformer NewSource now driver parameters w0))
     = scans w0 @ Name (GetDefinition (parameters ''column'')) #
         (case scan_value parse_string (parameters ''column'') None of
            Inl e \<Rightarrow> []
          | Inr name \<Rightarrow>
              (case GetColumnByName driver name of
                 None \<Rightarrow> []
               | Some found \<Rightarrow> [Name (GetDefinition (parameters ''keep_null''))]))
   \<and> (fst (NewRandomIntTransformer NewSource now driver parameters w0) = (Some rit0, ws, err)
        \<longrightarrow> scan_value parse_string (parameters ''column'') None = Inr (columnName rit0)
          \<and> scan_value parse_bool (parameters ''keep_null'') None = Inr (keepNull rit0)
          \<and> minParam rit0 = parameters ''min'' \<and> maxParam rit0 = parameters ''max'')
   \<and> scans (snd (snd (Transform rit r w)))
     = scans w @ Name (GetDefinition (minParam rit)) #
         (case scan_value parse_int64 (minParam rit) (Some (records w r)) of
            Inl e \<Rightarrow> []
          | Inr minVal \<Rightarrow> [Name (GetDefinition (maxParam rit))])
   \<and> columnName (fst (snd (Transform rit r w))) = columnName rit
   \<and> keepNull (fst (snd (Transform rit r w))) = keepNull rit
   \<and> columnIdx (fst (snd (Transform rit r w))) = columnIdx rit
   \<and> minParam (fst (snd (Transform rit r w))) = minParam rit
   \<and> maxParam (fst (snd (Transform rit r w))) = maxParam rit"
proof (intro conjI impI)
  show "scans (snd (NewRandomIntTransformer NewSource now driver parameters w0))
     = scans w0 @ Name (GetDefinition (parameters ''column'')) #
         (case scan_value parse_string (parameters ''column'') None of
            Inl e \<Rightarrow> []
          | Inr name \<Rightarrow>
              (case GetColumnByName driver name of
                 None \<Rightarrow> []
               | Some found \<Rightarrow> [Name (GetDefinition (parameters ''keep_null''))]))"
    by (simp add: NewRandomIntTransformer_def Scan_def Let_def
          split: sum.splits option.splits prod.splits)
next
  assume new: "fst (NewRandomIntTransformer NewSource now driver parameters w0)
      = (Some rit0, ws, err)"
  then have "scan_value parse_string (parameters ''column'') None = Inr (columnName rit0)
          \<and> scan_value parse_bool (parameters ''keep_null'') None = Inr (keepNull rit0)
          \<and> minParam rit0 = parameters ''min'' \<and> maxParam rit0 = parameters ''max''"
    by (auto simp: NewRandomIntTransformer_def Scan_def Let_def
             split: sum.splits option.splits prod.splits)
  then show "scan_value parse_string (parameters ''column'') None = Inr (columnName rit0)"
    and "scan_value parse_bool (parameters ''keep_null'') None = Inr (keepNull rit0)"
    and "minParam rit0 = parameters ''min''" and "maxParam rit0 = parameters ''max''"
    by simp_all
next
  show "scans (snd (snd (Transform rit r w)))
     = scans w @ Name (GetDefinition (minParam rit)) #
         (case scan_value parse_int64 (minParam rit) (Some (records w r)) of
            Inl e \<Rightarrow> []
          | Inr minVal \<Rightarrow> [Name (GetDefinition (maxParam rit))])"
    by (simp add: Transform_def Scan_def Let_def split: sum.splits prod.splits)
next
  show "columnName (fst (snd (Transform rit r w))) = columnName rit"
    by (simp add: Transform_def Scan_def Let_def split: sum.splits prod.splits)
  show "keepNull (fst (snd (Transform rit r w))) = keepNull rit"
    by (simp add: Transform_def Scan_def Let_def split: sum.splits prod.splits)
  show "columnIdx (fst (snd (Transform rit r w))) = columnIdx rit"
    by (simp add: Transform_def Scan_def Let_def split: sum.splits prod.splits)
  show "minParam (fst (snd (Transform rit r w))) = minParam rit"
    by (simp add: Transform_def Scan_def Let_def split: sum.splits prod.splits)
  show "maxParam (fst (snd (Transform rit r w))) = maxParam rit"
    by (simp add: Transform_def Scan_def Let_def split: sum.splits prod.splits)
qed

theorem scans_at_construction_and_per_row_witness:
  "fst (NewRandomIntTransformer counting_source 7 orders_driver
          (static_config ''user_id'' ''1'' ''10'' None) orders_world)
     = (Some (user_id_transformer (static_config ''user_id'' ''1'' ''10'' None) True), [], None)
   \<and> scan_value parse_bool (static_config ''user_id'' ''1'' ''10'' None ''keep_null'') None
     = Inr True
   \<and> scans (snd (snd (Transform
        (user_id_transformer (static_config ''user_id'' ''1'' ''10'' None) True) 0 orders_world)))
     = [''min'', ''max'']"
proof -
  let ?P = "static_config ''user_id'' ''1'' ''10'' None"
  let ?T = "user_id_transformer ?P True"
  have new: "fst (NewRandomIntTransformer counting_source 7 orders_driver ?P orders_world)
      = (Some ?T, [], None)"
    by (simp add: new_user_id_default)
  note all = scans_at_construction_and_per_row
      [where NewSource = counting_source and now = 7 and driver = orders_driver
         and parameters = ?P and ?w0.0 = orders_world and ?rit0.0 = ?T and ws = "[]"
         and err = None and rit = ?T and r = 0 and w = orders_world]
  note cached = all [THEN conjunct2, THEN conjunct1, THEN mp, OF new]
  note per_row = all [THEN conjunct2, THEN conjunct2, THEN conjunct1]
  have kn: "keepNull ?T = True" by (simp add: user_id_transformer_def)
  have names: "Name (GetDefinition (minParam ?T)) = ''min''"
    "Name (GetDefinition (maxParam ?T)) = ''max''"
    by (simp_all add: user_id_transformer_def definition_simps)
  have lo: "scan_value parse_int64 (minParam ?T) (Some (records orders_world 0)) = Inr 1"
    by (simp add: user_id_transformer_def definition_simps scan_simps)
  have start: "scans orders_world = []" by (simp add: orders_world_def)
  from cached kn have flag: "scan_value parse_bool (?P ''keep_null'') None = Inr True"
    by simp
  from per_row have "scans (snd (snd (Transform ?T 0 orders_world))) = [''min'', ''max'']"
    by (simp add: names lo start)
  with new flag show ?thesis by (intro conjI)
qed

section \<open>The claims about the restore transaction controller\<close>

lemmas session_simps =
  orders_session_def orders_session_disabled_def orders_entry_def all_settings_def
  newRestoreBase_def setupTx_def resetTx_def setupTx_statements_def resetTx_statements_def
  setup_then_reset_def set_triggers_def privileged_def trigger_flags_def

lemma set_triggers_twice:
  "set_triggers ns tbl b (set_triggers ns tbl a ts) = set_triggers ns tbl b ts"
  by (induction ts) (simp_all add: set_triggers_def)

lemma set_triggers_same:
  assumes "\<forall>t \<in> set ts. nspname t = ns \<and> relname t = tbl \<longrightarrow> tgenabled t = flag"
  shows "set_triggers ns tbl flag ts = ts"
  using assms by (induction ts) (simp_all add: set_triggers_def)

lemma Session_restore:
  "tx\<lparr>current_user := current_user tx\<rparr> = tx"
  "tx\<lparr>pg_trigger := pg_trigger tx\<rparr> = tx"
  "tx\<lparr>session_replication_role := session_replication_role tx\<rparr> = tx"
  by simp_all

text \<open>The scenarios of \<^verbatim>\<open>Test_restoreBase_setupTx\<close> and \<^verbatim>\<open>Test_restoreBase_resetTx\<close>.\<close>

lemma Test_restoreBase_setupTx:
  "\<exists>tx. setupTx (newRestoreBase orders_entry Map.empty all_settings) orders_session = Inr tx
      \<and> trigger_flags ''public'' ''orders'' tx = [(''trg_set_order_date'', CHR ''D'')]
      \<and> session_replication_role tx = ''replica''"
  by (simp add: session_simps)

lemma Test_restoreBase_resetTx:
  "\<exists>tx. resetTx (newRestoreBase orders_entry Map.empty all_settings)
          (orders_session\<lparr>current_user := ''testuser'',
             pg_trigger := set_triggers ''public'' ''orders'' (CHR ''D'') (pg_trigger orders_session),
             session_replication_role := ''replica''\<rparr>) = Inr tx
      \<and> trigger_flags ''public'' ''orders'' tx = [(''trg_set_order_date'', CHR ''O'')]
      \<and> session_replication_role tx = ''origin''"
  by (simp add: session_simps)

text \<open>
  Claim C1, as stated, fails for a session that does not start in its default state.
  Teardown re-enables the triggers and resets the replication role and the role; it has
  no record of what they were. On a table whose triggers were disabled before setup, setup
  followed by teardown leaves them enabled.
\<close>

theorem setup_then_reset_enables_disabled_triggers:
  "trigger_flags ''public'' ''orders'' orders_session_disabled
     = [(''trg_set_order_date'', CHR ''D'')]
   \<and> setup_then_reset (newRestoreBase orders_entry Map.empty all_settings)
        orders_session_disabled = Inr orders_session
   \<and> trigger_flags ''public'' ''orders'' orders_session
     = [(''trg_set_order_date'', CHR ''O'')]
   \<and> orders_session \<noteq> orders_session_disabled"
  by (simp add: session_simps)

text \<open>
  Claim C1, amended. For every restore settings configuration, when \<open>setupTx\<close> succeeds
  on a session in which, as far as the configuration touches them, the current role is the
  login role, the triggers of the target relation are all enabled and the replication role
  is the session's default, then \<open>resetTx\<close> right after it succeeds and gives back exactly
  the session from before setup; the statements of teardown are the inverses of the
  statements of setup, in reverse order.
\<close>

theorem setupTx_resetTx_restores:
  assumes ran: "setupTx rb tx = Inr tx'"
    and role: "SuperUser (opt rb) \<noteq> [] \<longrightarrow> current_user tx = session_user tx"
    and trg: "DisableTriggers (opt rb) \<longrightarrow>
                (\<forall>t \<in> set (pg_trigger tx).
                    nspname t = Namespace (entry rb) \<and> relname t = Tag (entry rb)
                    \<longrightarrow> tgenabled t = CHR ''O'')"
    and repl: "UseSessionReplicationRoleReplica (opt rb) \<longrightarrow>
                session_replication_role tx = default_replication_role tx"
  shows "resetTx rb tx' = Inr tx
       \<and> resetTx_statements rb = rev (map inverse_statement (setupTx_statements rb))"
proof
  show "resetTx_statements rb = rev (map inverse_statement (setupTx_statements rb))"
    by (simp add: resetTx_statements_def setupTx_statements_def)
next
  show "resetTx rb tx' = Inr tx"
  proof (cases "SuperUser (opt rb) = []")
    case True
    with ran trg repl show ?thesis
      by (cases "DisableTriggers (opt rb)"; cases "UseSessionReplicationRoleReplica (opt rb)")
         (auto simp: setupTx_def resetTx_def setupTx_statements_def resetTx_statements_def
            privileged_def set_triggers_twice set_triggers_same Session_restore
            split: if_splits)
  next
    case False
    with ran role trg repl show ?thesis
      by (cases "DisableTriggers (opt rb)"; cases "UseSessionReplicationRoleReplica (opt rb)")
         (auto simp: setupTx_def resetTx_def setupTx_statements_def resetTx_statements_def
            privileged_def set_triggers_twice set_triggers_same Session_restore
            split: if_splits)
  qed
qed


theorem setupTx_resetTx_restores_witness:
  "setupTx (newRestoreBase orders_entry Map.empty all_settings) orders_session
     = Inr (orders_session\<lparr>current_user := ''testuser'',
              pg_trigger := [\<lparr>nspname = ''public'', relname = ''orders'',
                               tgname = ''trg_set_order_date'', tgenabled = CHR ''D''\<rparr>],
              session_replication_role := ''replica''\<rparr>)
   \<and> resetTx (newRestoreBase orders_entry Map.empty all_settings)
        (orders_session\<lparr>current_user := ''testuser'',
              pg_trigger := [\<lparr>nspname = ''public'', relname = ''orders'',
                               tgname = ''trg_set_order_date'', tgenabled = CHR ''D''\<rparr>],
              session_replication_role := ''replica''\<rparr>)
     = Inr orders_session"
proof -
  let ?rb = "newRestoreBase orders_entry Map.empty all_settings"
  let ?tx' = "orders_session\<lparr>current_user := ''testuser'',
              pg_trigger := [\<lparr>nspname = ''public'', relname = ''orders'',
                               tgname = ''trg_set_order_date'', tgenabled = CHR ''D''\<rparr>],
              session_replication_role := ''replica''\<rparr>"
  have ran: "setupTx ?rb orders_session = Inr ?tx'"
    by (simp add: session_simps)
  have role: "SuperUser (opt ?rb) \<noteq> [] \<longrightarrow> current_user orders_session = session_user orders_session"
    by (simp add: session_simps)
  have trg: "DisableTriggers (opt ?rb) \<longrightarrow>
                (\<forall>t \<in> set (pg_trigger orders_session).
                    nspname t = Namespace (entry ?rb) \<and> relname t = Tag (entry ?rb)
                    \<longrightarrow> tgenabled t = CHR ''O'')"
    by (simp add: session_simps)
  have repl: "UseSessionReplicationRoleReplica (opt ?rb) \<longrightarrow>
                session_replication_role orders_session = default_replication_role orders_session"
    by (simp add: session_simps)
  from setupTx_resetTx_restores [OF ran role trg repl]
  have "resetTx ?rb ?tx' = Inr orders_session" by (rule conjunct1)
  with ran show ?thesis by (intro conjI)
qed

lemma read_to_end_all:
  assumes "0 < n" and "length (pending rc) < fuel" and "\<not> closed rc"
  shows "read_to_end fuel rc n = Some (pending rc)"
  using assms
proof (induction fuel arbitrary: rc)
  case 0
  then show ?case by simp
next
  case (Suc fuel)
  show ?case
  proof (cases "pending rc = []")
    case True
    with Suc.prems show ?thesis by (simp add: Read_def)
  next
    case False
    let ?rc = "rc\<lparr>pending := drop n (pending rc)\<rparr>"
    have shorter: "length (pending ?rc) < fuel"
      using False Suc.prems by (cases "pending rc") auto
    have "read_to_end fuel ?rc n = Some (pending ?rc)"
      using Suc.prems shorter by (intro Suc.IH) simp_all
    with False Suc.prems show ?thesis by (simp add: Read_def)
  qed
qed

text \<open>
  Claim C9. For every entry with a backing object whose stored bytes are the compressed
  encoding of a payload (the decoder gives the payload for them), \<open>getObject\<close> returns an
  open stream whose contents are that payload byte for byte: reading it to its end, with
  a buffer of any positive size, yields the payload.
\<close>

theorem getObject_returns_payload:
  assumes "FileName (entry rb) = Some name"
    and "st rb name = Some stored"
    and "gunzip stored = Some payload"
  shows "\<exists>obj. getObject gunzip rb = Inr obj
           \<and> pending obj = payload \<and> \<not> closed obj
           \<and> (\<forall>n. 0 < n \<longrightarrow> read_to_end (Suc (length payload)) obj n = Some payload)"
proof -
  let ?obj = "\<lparr>pending = payload, closed = False\<rparr>"
  have "getObject gunzip rb = Inr ?obj"
    using assms by (simp add: getObject_def GetObject_def)
  moreover have "read_to_end (Suc (length payload)) ?obj n = Some payload" if "0 < n" for n
    using that read_to_end_all [of n ?obj "Suc (length payload)"] by simp
  ultimately show ?thesis by (intro exI [of _ ?obj]) simp
qed

theorem getObject_returns_payload_witness:
  "FileName (entry (newRestoreBase orders_entry test_storage all_settings)) = Some ''test.tar.gz''
   \<and> st (newRestoreBase orders_entry test_storage all_settings) ''test.tar.gz''
       = Some ''GZ20383 24ca7574''
   \<and> magic_gunzip ''GZ20383 24ca7574'' = Some ''20383 24ca7574''
   \<and> (\<exists>obj. getObject magic_gunzip (newRestoreBase orders_entry test_storage all_settings)
               = Inr obj
          \<and> fst (Read obj 1024) = Inr ''20383 24ca7574'')"
proof -
  let ?rb = "newRestoreBase orders_entry test_storage all_settings"
  have named: "FileName (entry ?rb) = Some ''test.tar.gz''"
    by (simp add: newRestoreBase_def orders_entry_def)
  have stored: "st ?rb ''test.tar.gz'' = Some ''GZ20383 24ca7574''"
    by (simp add: newRestoreBase_def test_storage_def)
  have decoded: "magic_gunzip ''GZ20383 24ca7574'' = Some ''20383 24ca7574''"
    by (simp add: magic_gunzip_def)
  from getObject_returns_payload [where gunzip = magic_gunzip, OF named stored decoded]
  obtain obj where obj: "getObject magic_gunzip ?rb = Inr obj"
    and content: "pending obj = ''20383 24ca7574''" and opened: "\<not> closed obj"
    by (elim exE conjE)
  have "fst (Read obj 1024) = Inr ''20383 24ca7574''"
    using content opened by (simp add: Read_def)
  with named stored decoded obj show ?thesis by (intro conjI exI [of _ obj])
qed

end
